theory Spec2Isabelle
  imports Main "HOL-Library.Sublist" "HOL-Library.AList" "HOL-Library.Multiset"
begin

section \<open>Python values and exceptions\<close>

text \<open>
  Every \<^verbatim>\<open>raise\<close> of \<^verbatim>\<open>src/mtm.py\<close>, and every exception the interpreter raises
  for it (a failed subscript, a missing attribute, an exhausted iterator), is a value
  of \<open>py_error\<close>. A \<open>KeyError\<close> carries its argument: the missing key of a failed
  subscript, or the message \<open>get_encoder_attr_name\<close> builds.
\<close>

datatype py_error =
    KeyError string
  | AttributeError string
  | TypeError string
  | IndexError
  | GeneratorStop
  | LibraryError string

section \<open>MultitaskModel\<close>

subsection \<open>get_encoder_attr_name\<close>

text \<open>
  \<^verbatim>\<open>model.__class__.__name__\<close> is the only thing the method reads of the model, so
  the class name is its argument. \<^verbatim>\<open>str.startswith\<close> is \<open>prefix\<close> on strings.
\<close>

definition get_encoder_attr_name :: "string \<Rightarrow> py_error + string" where
  "get_encoder_attr_name model_class_name =
     (if prefix ''Bert'' model_class_name then Inr ''bert''
      else if prefix ''Roberta'' model_class_name then Inr ''roberta''
      else if prefix ''Albert'' model_class_name then Inr ''albert''
      else Inl (KeyError (''Add support for new model '' @ model_class_name)))"

subsection \<open>Objects\<close>

text \<open>
  Sub-modules are objects, held by reference: a \<open>ref\<close> is an object's identity and a
  store \<open>ref \<rightharpoonup> 'p\<close> gives each object's current parameters. A task model (the
  object \<^verbatim>\<open>model_type.from_pretrained\<close> returns) has its class name, the attributes
  that hold sub-modules, and its forward computation, which reads the sub-modules
  through the attribute names and returns a result or raises. An attribute that is
  present holds an object: the encoder of a loaded model is never \<^verbatim>\<open>None\<close>, so in
  \<open>create\<close> the test \<^verbatim>\<open>shared_encoder is None\<close> holds in the first iteration only.
\<close>

type_synonym ref = nat

record ('p, 'i, 'o) task_model =
  class_name :: string
  attrs :: "(string \<times> ref) list"
  module_forward :: "(string \<Rightarrow> 'p option) \<Rightarrow> 'i \<Rightarrow> py_error + 'o"

text \<open>\<^verbatim>\<open>getattr(model, name)\<close> and \<^verbatim>\<open>setattr(model, name, obj)\<close>.\<close>

definition getattr :: "('p, 'i, 'o) task_model \<Rightarrow> string \<Rightarrow> py_error + ref" where
  "getattr model name =
     (case map_of (attrs model) name of
        None \<Rightarrow> Inl (AttributeError name)
      | Some r \<Rightarrow> Inr r)"

definition setattr ::
  "('p, 'i, 'o) task_model \<Rightarrow> string \<Rightarrow> ref \<Rightarrow> ('p, 'i, 'o) task_model" where
  "setattr model name r = model\<lparr>attrs := AList.update name r (attrs model)\<rparr>"

text \<open>
  Calling a task model, \<^verbatim>\<open>model(**kwargs)\<close>, in a store: each attribute is read
  through its reference, and whatever the model's forward computation raises is
  raised by the call.
\<close>

definition submodule :: "(ref \<rightharpoonup> 'p) \<Rightarrow> ('p, 'i, 'o) task_model \<Rightarrow> string \<Rightarrow> 'p option" where
  "submodule store model name =
     (case map_of (attrs model) name of None \<Rightarrow> None | Some r \<Rightarrow> store r)"

definition invoke :: "(ref \<rightharpoonup> 'p) \<Rightarrow> ('p, 'i, 'o) task_model \<Rightarrow> 'i \<Rightarrow> py_error + 'o" where
  "invoke store model kwargs = module_forward model (submodule store model) kwargs"

text \<open>
  What a task model holds as its encoder: the sub-module under the attribute its
  architecture names.
\<close>

definition encoder_of :: "('p, 'i, 'o) task_model \<Rightarrow> ref option" where
  "encoder_of model =
     (case get_encoder_attr_name (class_name model) of
        Inl e \<Rightarrow> None
      | Inr a \<Rightarrow> map_of (attrs model) a)"


subsection \<open>nn.ModuleDict\<close>

text \<open>
  \<^verbatim>\<open>nn.ModuleDict(taskmodels_dict)\<close> registers the entries one by one, and the
  library's \<^verbatim>\<open>add_module\<close> raises \<open>KeyError\<close> for a name that is already an
  attribute of the container and not a registered module, for a name with a dot, and
  for the empty name. Which names are attributes of a fresh \<^verbatim>\<open>nn.ModuleDict\<close>
  (\<^verbatim>\<open>train\<close>, \<^verbatim>\<open>eval\<close>, \<^verbatim>\<open>forward\<close>, ...) depends on the library: it is the
  parameter \<open>reserved\<close>. The argument of each \<open>KeyError\<close> stands for the library's
  message.
\<close>

fun ModuleDict_update ::
  "(string \<Rightarrow> bool) \<Rightarrow> (string \<times> 'm) list \<Rightarrow> (string \<times> 'm) list \<Rightarrow>
   py_error + (string \<times> 'm) list" where
  "ModuleDict_update reserved registered [] = Inr registered"
| "ModuleDict_update reserved registered ((name, m) # rest) =
     (if reserved name \<and> map_of registered name = None then
        Inl (KeyError (''attribute already exists: '' @ name))
      else if CHR ''.'' \<in> set name then
        Inl (KeyError (''module name cannot contain a dot: '' @ name))
      else if name = [] then
        Inl (KeyError ''module name cannot be the empty string'')
      else ModuleDict_update reserved (AList.update name m registered) rest)"

definition ModuleDict ::
  "(string \<Rightarrow> bool) \<Rightarrow> (string \<times> 'm) list \<Rightarrow> py_error + (string \<times> 'm) list" where
  "ModuleDict reserved d = ModuleDict_update reserved [] d"

subsection \<open>The model, create and forward\<close>

record ('p, 'i, 'o) MultitaskModel =
  encoder :: "ref option"
  taskmodels_dict :: "(string \<times> ('p, 'i, 'o) task_model) list"

text \<open>
  \<^verbatim>\<open>__init__\<close>: \<^verbatim>\<open>self.encoder = encoder\<close> and
  \<^verbatim>\<open>self.taskmodels_dict = nn.ModuleDict(taskmodels_dict)\<close>, which may raise.
\<close>

definition MultitaskModel_init ::
  "(string \<Rightarrow> bool) \<Rightarrow> ref option \<Rightarrow> (string \<times> ('p, 'i, 'o) task_model) list \<Rightarrow>
   py_error + ('p, 'i, 'o) MultitaskModel" where
  "MultitaskModel_init reserved enc tmd =
     (case ModuleDict reserved tmd of
        Inl e \<Rightarrow> Inl e
      | Inr registered \<Rightarrow> Inr \<lparr>encoder = enc, taskmodels_dict = registered\<rparr>)"

text \<open>
  The loop of \<^verbatim>\<open>create\<close> over \<^verbatim>\<open>model_type_dict.items()\<close>. Its state is
  \<^verbatim>\<open>shared_encoder\<close> (\<open>None\<close> until the first model is loaded),
  \<^verbatim>\<open>taskmodels_dict\<close> and the interpreter state \<open>h\<close> that
  \<^verbatim>\<open>from_pretrained\<close> changes when it allocates a model. \<^verbatim>\<open>from_pretrained\<close>
  belongs to the model library, so it is the parameter \<open>fp\<close>; it may raise. The
  unused \<^verbatim>\<open>nn.Dropout(p=0.2)\<close> has no effect and is left out.
\<close>

fun create_loop ::
  "('mt \<Rightarrow> string \<Rightarrow> 'cfg \<Rightarrow> 'h \<Rightarrow> py_error + (('p, 'i, 'o) task_model \<times> 'h)) \<Rightarrow>
   string \<Rightarrow> (string \<times> 'cfg) list \<Rightarrow> (string \<times> 'mt) list \<Rightarrow>
   ref option \<Rightarrow> (string \<times> ('p, 'i, 'o) task_model) list \<Rightarrow> 'h \<Rightarrow>
   py_error + (ref option \<times> (string \<times> ('p, 'i, 'o) task_model) list \<times> 'h)" where
  "create_loop fp model_name model_config_dict [] shared_encoder tmd h =
     Inr (shared_encoder, tmd, h)"
| "create_loop fp model_name model_config_dict ((task_name, model_type) # rest)
     shared_encoder tmd h =
     (case map_of model_config_dict task_name of
        None \<Rightarrow> Inl (KeyError task_name)
      | Some config \<Rightarrow>
          (case fp model_type model_name config h of
             Inl e \<Rightarrow> Inl e
           | Inr (model, h') \<Rightarrow>
               (case shared_encoder of
                  None \<Rightarrow>
                    (case get_encoder_attr_name (class_name model) of
                       Inl e \<Rightarrow> Inl e
                     | Inr a \<Rightarrow>
                         (case getattr model a of
                            Inl e \<Rightarrow> Inl e
                          | Inr r \<Rightarrow>
                              create_loop fp model_name model_config_dict rest
                                (Some r) (AList.update task_name model tmd) h'))
                | Some enc \<Rightarrow>
                    (case get_encoder_attr_name (class_name model) of
                       Inl e \<Rightarrow> Inl e
                     | Inr a \<Rightarrow>
                         create_loop fp model_name model_config_dict rest
                           (Some enc) (AList.update task_name (setattr model a enc) tmd) h'))))"

definition create ::
  "(string \<Rightarrow> bool) \<Rightarrow>
   ('mt \<Rightarrow> string \<Rightarrow> 'cfg \<Rightarrow> 'h \<Rightarrow> py_error + (('p, 'i, 'o) task_model \<times> 'h)) \<Rightarrow>
   string \<Rightarrow> (string \<times> 'mt) list \<Rightarrow> (string \<times> 'cfg) list \<Rightarrow> 'h \<Rightarrow>
   py_error + (('p, 'i, 'o) MultitaskModel \<times> 'h)" where
  "create reserved fp model_name model_type_dict model_config_dict h =
     (case create_loop fp model_name model_config_dict model_type_dict None [] h of
        Inl e \<Rightarrow> Inl e
      | Inr (shared_encoder, tmd, h') \<Rightarrow>
          (case MultitaskModel_init reserved shared_encoder tmd of
             Inl e \<Rightarrow> Inl e
           | Inr self \<Rightarrow> Inr (self, h')))"

text \<open>
  \<^verbatim>\<open>forward(task_name, **kwargs)\<close>: the subscript raises \<open>KeyError\<close> on a missing
  key; otherwise the head is called, and what the head returns or raises is what
  \<open>forward\<close> returns or raises.
\<close>

definition forward ::
  "(ref \<rightharpoonup> 'p) \<Rightarrow> ('p, 'i, 'o) MultitaskModel \<Rightarrow> string \<Rightarrow> 'i \<Rightarrow> py_error + 'o" where
  "forward store self task_name kwargs =
     (case map_of (taskmodels_dict self) task_name of
        None \<Rightarrow> Inl (KeyError task_name)
      | Some head \<Rightarrow> invoke store head kwargs)"

text \<open>
  Heads, a loader and attribute names to run \<open>create\<close> and \<open>forward\<close> on.
  \<open>linear_head\<close> multiplies its input by the parameter of the sub-module under
  attribute \<open>a\<close>, and raises when it has no such sub-module. \<open>lookup_head\<close> returns
  the keyword input \<open>input_ids\<close>, and raises \<open>KeyError\<close> when it is not given. For
  the loader the model type is a class name and the interpreter state is the next
  free reference. A model with a task head owns a fresh encoder under the attribute
  of its architecture and a fresh classifier. The bare \<open>BertModel\<close> has no \<open>bert\<close>
  attribute: it is the transformer itself and computes through its own \<open>encoder\<close>
  layer stack.
\<close>

definition linear_head :: "string \<Rightarrow> string \<Rightarrow> (string \<times> ref) list \<Rightarrow> (int, int, int) task_model" where
  "linear_head cls a as =
     \<lparr>class_name = cls, attrs = as,
      module_forward =
        (\<lambda>sub x. (case sub a of None \<Rightarrow> Inl (AttributeError a) | Some p \<Rightarrow> Inr (p * x)))\<rparr>"

definition lookup_head ::
  "string \<Rightarrow> (string \<times> ref) list \<Rightarrow> (int, (string \<times> int) list, int) task_model" where
  "lookup_head cls as =
     \<lparr>class_name = cls, attrs = as,
      module_forward =
        (\<lambda>sub kwargs. (case map_of kwargs ''input_ids'' of
                          None \<Rightarrow> Inl (KeyError ''input_ids'')
                        | Some x \<Rightarrow> Inr x))\<rparr>"

definition load_fresh ::
  "string \<Rightarrow> string \<Rightarrow> 'cfg \<Rightarrow> nat \<Rightarrow> py_error + ((int, int, int) task_model \<times> nat)" where
  "load_fresh cls model_name config h =
     (case get_encoder_attr_name cls of
        Inl e \<Rightarrow> Inl (LibraryError cls)
      | Inr a \<Rightarrow>
          (if cls = ''BertModel''
           then Inr (linear_head cls ''encoder'' [(''embeddings'', h), (''encoder'', Suc h)],
                     Suc (Suc h))
           else Inr (linear_head cls a [(a, h), (''classifier'', Suc h)], Suc (Suc h))))"

definition nn_module_attrs :: "string \<Rightarrow> bool" where
  "nn_module_attrs name =
     (name \<in> set [''train'', ''eval'', ''forward'', ''training'', ''parameters'',
                  ''keys'', ''values'', ''items'', ''update'', ''pop'', ''clear''])"


section \<open>Batches\<close>

text \<open>
  A batch is a dict from field names to values; a field is \<^verbatim>\<open>None\<close>, a plain
  \<^verbatim>\<open>str\<close>, a \<^verbatim>\<open>StrIgnoreDevice\<close> (the \<^verbatim>\<open>str\<close> subclass of the source) or a
  tensor, which has a dtype, a device and its contents \<open>'d\<close>.
\<close>

datatype dtype = Int64 | Int32 | Float32 | Float64

datatype 'd py_value =
    PyNone
  | PyStr string
  | StrIgnoreDevice string
  | PyTensor dtype string 'd

type_synonym 'd py_dict = "(string \<times> 'd py_value) list"

text \<open>\<^verbatim>\<open>isinstance(v, str)\<close> holds of a \<^verbatim>\<open>str\<close> and of its subclass.\<close>

fun isinstance_str :: "'d py_value \<Rightarrow> bool" where
  "isinstance_str (PyStr s) = True"
| "isinstance_str (StrIgnoreDevice s) = True"
| "isinstance_str v = False"

fun str_of :: "'d py_value \<Rightarrow> string option" where
  "str_of (PyStr s) = Some s"
| "str_of (StrIgnoreDevice s) = Some s"
| "str_of v = None"

text \<open>\<^verbatim>\<open>StrIgnoreDevice.to(self, device)\<close> returns \<^verbatim>\<open>self\<close>.\<close>

definition StrIgnoreDevice_to :: "'d py_value \<Rightarrow> string \<Rightarrow> 'd py_value" where
  "StrIgnoreDevice_to self device = self"

text \<open>
  The call \<^verbatim>\<open>v.to(device)\<close> the trainer makes on every field of a batch: the method
  above on a \<^verbatim>\<open>StrIgnoreDevice\<close>; a tensor moves to the device; a plain \<^verbatim>\<open>str\<close> and
  \<^verbatim>\<open>None\<close> have no such method.
\<close>

fun call_to :: "'d py_value \<Rightarrow> string \<Rightarrow> py_error + 'd py_value" where
  "call_to (StrIgnoreDevice s) device = Inr (StrIgnoreDevice_to (StrIgnoreDevice s) device)"
| "call_to (PyTensor dt dev x) device = Inr (PyTensor dt device x)"
| "call_to (PyStr s) device = Inl (AttributeError ''to'')"
| "call_to PyNone device = Inl (AttributeError ''to'')"

section \<open>NLPDataCollator\<close>

text \<open>
  An element of \<^verbatim>\<open>features\<close> is a dict or an object of some other class
  (\<^verbatim>\<open>Union[InputDataClass, Dict]\<close>).
\<close>

datatype ('d, 'x) example = DictExample "'d py_dict" | DataExample 'x

text \<open>The subscript \<^verbatim>\<open>f[k]\<close>, and the comprehension \<^verbatim>\<open>[f[k] for f in features]\<close>.\<close>

fun getitem :: "('d, 'x) example \<Rightarrow> string \<Rightarrow> py_error + 'd py_value" where
  "getitem (DictExample d) k =
     (case map_of d k of None \<Rightarrow> Inl (KeyError k) | Some v \<Rightarrow> Inr v)"
| "getitem (DataExample x) k = Inl (TypeError ''object is not subscriptable'')"

fun gather :: "string \<Rightarrow> ('d, 'x) example list \<Rightarrow> py_error + 'd py_value list" where
  "gather k [] = Inr []"
| "gather k (f # fs) =
     (case getitem f k of
        Inl e \<Rightarrow> Inl e
      | Inr v \<Rightarrow> (case gather k fs of Inl e \<Rightarrow> Inl e | Inr vs \<Rightarrow> Inr (v # vs)))"

text \<open>The attribute \<^verbatim>\<open>v.dtype\<close>: only a tensor has one.\<close>

fun dtype_of :: "'d py_value \<Rightarrow> py_error + dtype" where
  "dtype_of (PyTensor dt dev x) = Inr dt"
| "dtype_of v = Inl (AttributeError ''dtype'')"

text \<open>
  \<^verbatim>\<open>collate_batch\<close>, in three parts. \<^verbatim>\<open>torch.tensor\<close>, \<^verbatim>\<open>torch.stack\<close> and
  \<^verbatim>\<open>DataCollatorWithPadding().collate_batch\<close> belong to libraries: they are the
  parameters \<open>torch_tensor\<close>, \<open>torch_stack\<close> and \<open>default_collate\<close>, and each may raise.
  \<^verbatim>\<open>torch.long\<close> is \<open>Int64\<close> and \<^verbatim>\<open>torch.float\<close> is \<open>Float32\<close>.

  The variable \<^verbatim>\<open>batch\<close> starts as \<^verbatim>\<open>None\<close> and is a dict only after the
  labels branch has run: it is a \<open>'d py_dict option\<close>. First the labels branch
  (\<open>"labels" in first and first["labels"] is not None\<close>):
\<close>

definition collate_labels ::
  "('d py_value list \<Rightarrow> dtype \<Rightarrow> py_error + 'd py_value) \<Rightarrow> ('d, 'x) example list \<Rightarrow>
   'd py_dict \<Rightarrow> py_error + 'd py_dict option" where
  "collate_labels torch_tensor features first =
     (case map_of first ''labels'' of
        None \<Rightarrow> Inr None
      | Some PyNone \<Rightarrow> Inr None
      | Some v \<Rightarrow>
          (case dtype_of v of
             Inl e \<Rightarrow> Inl e
           | Inr dt \<Rightarrow>
               (if dt = Int64 then
                  (case gather ''labels'' features of
                     Inl e \<Rightarrow> Inl e
                   | Inr ls \<Rightarrow>
                       (case torch_tensor ls Int64 of
                          Inl e \<Rightarrow> Inl e
                        | Inr labels \<Rightarrow> Inr (Some [(''labels'', labels)])))
                else
                  (case gather ''labels'' features of
                     Inl e \<Rightarrow> Inl e
                   | Inr ls \<Rightarrow>
                       (case torch_tensor ls Float32 of
                          Inl e \<Rightarrow> Inl e
                        | Inr labels \<Rightarrow> Inr (Some [(''labels'', labels)]))))))"

text \<open>
  then the loop over \<^verbatim>\<open>first.items()\<close>. In
  \<^verbatim>\<open>batch[k] = torch.stack([f[k] for f in features])\<close> the right-hand side is
  evaluated first; the assignment then raises \<^verbatim>\<open>TypeError\<close> when \<^verbatim>\<open>batch\<close> is
  \<^verbatim>\<open>None\<close>:
\<close>

fun collate_fields ::
  "('d py_value list \<Rightarrow> py_error + 'd py_value) \<Rightarrow> ('d, 'x) example list \<Rightarrow>
   'd py_dict \<Rightarrow> 'd py_dict option \<Rightarrow> py_error + 'd py_dict option" where
  "collate_fields torch_stack features [] batch = Inr batch"
| "collate_fields torch_stack features ((k, v) # items) batch =
     (if k \<noteq> ''labels'' \<and> v \<noteq> PyNone \<and> \<not> isinstance_str v then
        (case gather k features of
           Inl e \<Rightarrow> Inl e
         | Inr vs \<Rightarrow>
             (case torch_stack vs of
                Inl e \<Rightarrow> Inl e
              | Inr stacked \<Rightarrow>
                  (case batch of
                     None \<Rightarrow> Inl (TypeError ''NoneType object does not support item assignment'')
                   | Some b \<Rightarrow>
                       collate_fields torch_stack features items
                         (Some (AList.update k stacked b)))))
      else collate_fields torch_stack features items batch)"

text \<open>
  and the method: \<^verbatim>\<open>features[0]\<close> raises \<^verbatim>\<open>IndexError\<close> on an empty list; the
  result \<open>Inr None\<close> is the return value \<^verbatim>\<open>None\<close>.
\<close>

definition collate_batch ::
  "('d py_value list \<Rightarrow> dtype \<Rightarrow> py_error + 'd py_value) \<Rightarrow>
   ('d py_value list \<Rightarrow> py_error + 'd py_value) \<Rightarrow>
   (('d, 'x) example list \<Rightarrow> py_error + 'd py_dict option) \<Rightarrow>
   ('d, 'x) example list \<Rightarrow> py_error + 'd py_dict option" where
  "collate_batch torch_tensor torch_stack default_collate features =
     (case features of
        [] \<Rightarrow> Inl IndexError
      | first # others \<Rightarrow>
          (case first of
             DictExample fd \<Rightarrow>
               (case collate_labels torch_tensor features fd of
                  Inl e \<Rightarrow> Inl e
                | Inr batch \<Rightarrow> collate_fields torch_stack features fd batch)
           | DataExample x \<Rightarrow> default_collate features))"

text \<open>
  A tensor library to run the collator on, over tensors whose contents are a flat list
  of integers: \<open>ints_tensor\<close> takes one-element tensors, \<open>ints_stack\<close> takes tensors
  only and joins their contents, and there is no default collator.
\<close>

fun contents_of :: "'d py_value \<Rightarrow> 'd option" where
  "contents_of (PyTensor dt dev x) = Some x"
| "contents_of v = None"

definition ints_tensor :: "int list py_value list \<Rightarrow> dtype \<Rightarrow> py_error + int list py_value" where
  "ints_tensor vs dt =
     (if list_all (\<lambda>v. case contents_of v of Some [x] \<Rightarrow> True | _ \<Rightarrow> False) vs
      then Inr (PyTensor dt ''cpu'' (concat (map (the \<circ> contents_of) vs)))
      else Inl (LibraryError ''torch.tensor''))"

definition ints_stack :: "int list py_value list \<Rightarrow> py_error + int list py_value" where
  "ints_stack vs =
     (case vs of
        [] \<Rightarrow> Inl (LibraryError ''torch.stack'')
      | v # _ \<Rightarrow>
          (if list_all (\<lambda>v. contents_of v \<noteq> None) vs
           then (case dtype_of v of
                   Inl e \<Rightarrow> Inl e
                 | Inr dt \<Rightarrow> Inr (PyTensor dt ''cpu'' (concat (map (the \<circ> contents_of) vs))))
           else Inl (TypeError ''expected Tensor as element'')))"

definition no_default :: "(int list, unit) example list \<Rightarrow> py_error + int list py_dict option" where
  "no_default features = Inl (LibraryError ''DataCollatorWithPadding'')"

definition three_examples :: "(int list, unit) example list" where
  "three_examples =
     [DictExample [(''labels'', PyTensor Int64 ''cpu'' [1]), (''x'', PyTensor Float32 ''cpu'' [10, 11]),
                   (''text'', PyStr ''good''), (''idx'', PyNone)],
      DictExample [(''labels'', PyTensor Int64 ''cpu'' [2]), (''x'', PyTensor Float32 ''cpu'' [20, 21]),
                   (''text'', PyStr ''bad''), (''idx'', PyNone)],
      DictExample [(''labels'', PyTensor Int64 ''cpu'' [3]), (''x'', PyTensor Float32 ''cpu'' [30, 31]),
                   (''text'', PyStr ''fine''), (''idx'', PyNone)]]"

section \<open>Data loaders\<close>

text \<open>
  What the code reads of a data loader: \<^verbatim>\<open>batch_size\<close>, \<^verbatim>\<open>dataset\<close>, its
  \<^verbatim>\<open>len()\<close> (the declared batch count) and the finite sequence of batches one
  iterator over it supplies before it is exhausted.
\<close>

record ('b, 'e) DataLoader =
  batch_size :: nat
  dataset :: "'e list"
  num_batches :: nat
  batches :: "'b list"

subsection \<open>DataLoaderWithTaskname\<close>

record ('d, 'e) DataLoaderWithTaskname =
  task_name :: string
  data_loader :: "('d py_dict, 'e) DataLoader"
  self_batch_size :: nat
  self_dataset :: "'e list"

definition DataLoaderWithTaskname_init ::
  "string \<Rightarrow> ('d py_dict, 'e) DataLoader \<Rightarrow> ('d, 'e) DataLoaderWithTaskname" where
  "DataLoaderWithTaskname_init tn dl =
     \<lparr>task_name = tn, data_loader = dl,
      self_batch_size = batch_size dl, self_dataset = dataset dl\<rparr>"

definition DataLoaderWithTaskname_len :: "('d, 'e) DataLoaderWithTaskname \<Rightarrow> nat" where
  "DataLoaderWithTaskname_len self = num_batches (data_loader self)"

text \<open>
  \<^verbatim>\<open>__iter__\<close>: every batch of the wrapped loader, with
  \<^verbatim>\<open>batch["task_name"] = StrIgnoreDevice(self.task_name)\<close> stored in it.
\<close>

definition DataLoaderWithTaskname_iter :: "('d, 'e) DataLoaderWithTaskname \<Rightarrow> 'd py_dict list" where
  "DataLoaderWithTaskname_iter self =
     map (\<lambda>batch. AList.update ''task_name'' (StrIgnoreDevice (task_name self)) batch)
       (batches (data_loader self))"

text \<open>The wrapper, as the data loader \<open>MultitaskDataloader\<close> sees.\<close>

definition as_DataLoader :: "('d, 'e) DataLoaderWithTaskname \<Rightarrow> ('d py_dict, 'e) DataLoader" where
  "as_DataLoader self =
     \<lparr>batch_size = self_batch_size self, dataset = self_dataset self,
      num_batches = DataLoaderWithTaskname_len self,
      batches = DataLoaderWithTaskname_iter self\<rparr>"

subsection \<open>MultitaskDataloader\<close>

record ('b, 'e) MultitaskDataloader =
  dataloader_dict :: "(string \<times> ('b, 'e) DataLoader) list"
  num_batches_dict :: "(string \<times> nat) list"
  task_name_list :: "string list"
  placeholder_dataset :: "'e option list"

text \<open>
  \<^verbatim>\<open>__init__\<close>. The attribute \<^verbatim>\<open>self.dataset\<close> is the field \<open>placeholder_dataset\<close>:
  \<^verbatim>\<open>[None] * sum(len(dataloader.dataset) ...)\<close>.
\<close>

definition MultitaskDataloader_init ::
  "(string \<times> ('b, 'e) DataLoader) list \<Rightarrow> ('b, 'e) MultitaskDataloader" where
  "MultitaskDataloader_init dd =
     \<lparr>dataloader_dict = dd,
      num_batches_dict = map (\<lambda>(tn, dl). (tn, num_batches dl)) dd,
      task_name_list = map fst dd,
      placeholder_dataset = replicate (sum_list (map (\<lambda>(tn, dl). length (dataset dl)) dd)) None\<rparr>"

definition MultitaskDataloader_len :: "('b, 'e) MultitaskDataloader \<Rightarrow> nat" where
  "MultitaskDataloader_len self = sum_list (map snd (num_batches_dict self))"

text \<open>
  The first loop of \<^verbatim>\<open>__iter__\<close>:
  \<^verbatim>\<open>task_choice_list += [i] * self.num_batches_dict[task_name]\<close> over
  \<^verbatim>\<open>enumerate(self.task_name_list)\<close>, from index \<open>i\<close> on.
\<close>

fun build_choices :: "(string \<times> nat) list \<Rightarrow> nat \<Rightarrow> string list \<Rightarrow> py_error + nat list" where
  "build_choices nbd i [] = Inr []"
| "build_choices nbd i (tn # tns) =
     (case map_of nbd tn of
        None \<Rightarrow> Inl (KeyError tn)
      | Some n \<Rightarrow>
          (case build_choices nbd (Suc i) tns of
             Inl e \<Rightarrow> Inl e
           | Inr cs \<Rightarrow> Inr (replicate n i @ cs)))"

text \<open>
  The second loop: \<^verbatim>\<open>yield next(dataloader_iter_dict[task_name])\<close> for every
  \<^verbatim>\<open>task_choice\<close>. The state is \<^verbatim>\<open>dataloader_iter_dict\<close>, each iterator given by
  the batches it has left. The result is the batches yielded and how the generator
  ended: \<open>None\<close> when it finished, or the error it raised. \<^verbatim>\<open>next\<close> on an exhausted
  iterator raises \<^verbatim>\<open>StopIteration\<close> inside the generator, which the interpreter
  turns into a \<^verbatim>\<open>RuntimeError\<close> for the consumer (\<open>GeneratorStop\<close>).
\<close>

fun iter_loop ::
  "string list \<Rightarrow> (string \<times> 'b list) list \<Rightarrow> nat list \<Rightarrow> 'b list \<times> py_error option" where
  "iter_loop tns its [] = ([], None)"
| "iter_loop tns its (task_choice # rest) =
     (if task_choice < length tns then
        (case map_of its (tns ! task_choice) of
           None \<Rightarrow> ([], Some (KeyError (tns ! task_choice)))
         | Some [] \<Rightarrow> ([], Some GeneratorStop)
         | Some (b # bs) \<Rightarrow>
             (case iter_loop tns (AList.update (tns ! task_choice) bs its) rest of
                (ys, e) \<Rightarrow> (b # ys, e)))
      else ([], Some IndexError))"

text \<open>
  \<^verbatim>\<open>__iter__\<close>. \<^verbatim>\<open>np.random.shuffle\<close> is the parameter \<open>shuffle\<close>: the theorems
  hold for every function that permutes its argument.
\<close>

definition MultitaskDataloader_iter ::
  "(nat list \<Rightarrow> nat list) \<Rightarrow> ('b, 'e) MultitaskDataloader \<Rightarrow> 'b list \<times> py_error option" where
  "MultitaskDataloader_iter shuffle self =
     (case build_choices (num_batches_dict self) 0 (task_name_list self) of
        Inl e \<Rightarrow> ([], Some e)
      | Inr task_choice_list \<Rightarrow>
          iter_loop (task_name_list self)
            (map (\<lambda>(tn, dl). (tn, batches dl)) (dataloader_dict self))
            (shuffle task_choice_list))"

text \<open>
  The batches of the stream that were drawn at the steps whose choice was task \<open>i\<close>.
\<close>

definition drawn_from :: "nat \<Rightarrow> nat list \<Rightarrow> 'b list \<Rightarrow> 'b list" where
  "drawn_from i choices ys = map snd (filter (\<lambda>(c, y). c = i) (zip choices ys))"

subsection \<open>Loaders to run the sampler on\<close>

text \<open>
  A shuffle that is not the identity (it cuts the list at \<open>n\<close>), the two-task scenario
  of the specification (3 and 7 batches), a mapping whose first task declares 3
  batches and supplies 2, and a wrapped loader of two batches.
\<close>

definition cut :: "nat \<Rightarrow> nat list \<Rightarrow> nat list" where
  "cut n xs = drop n xs @ take n xs"

definition loaders_3_7 :: "(string \<times> (string, nat) DataLoader) list" where
  "loaders_3_7 =
     [(''A'', \<lparr>batch_size = 2, dataset = [1, 2, 3, 4, 5], num_batches = 3,
              batches = [''a0'', ''a1'', ''a2'']\<rparr>),
      (''B'', \<lparr>batch_size = 2, dataset = [6, 7, 8, 9, 10, 11, 12, 13, 14, 15, 16, 17, 18],
              num_batches = 7,
              batches = [''b0'', ''b1'', ''b2'', ''b3'', ''b4'', ''b5'', ''b6'']\<rparr>)]"

definition loaders_short :: "(string \<times> (string, nat) DataLoader) list" where
  "loaders_short =
     [(''A'', \<lparr>batch_size = 2, dataset = [1, 2, 3, 4, 5], num_batches = 3,
              batches = [''a0'', ''a1'']\<rparr>),
      (''B'', \<lparr>batch_size = 2, dataset = [6, 7, 8, 9], num_batches = 2,
              batches = [''b0'', ''b1'']\<rparr>)]"

definition sentiment_loader :: "(int list, nat) DataLoaderWithTaskname" where
  "sentiment_loader =
     DataLoaderWithTaskname_init ''sentiment''
       \<lparr>batch_size = 1, dataset = [1, 2], num_batches = 2,
        batches = [[(''input_ids'', PyTensor Int64 ''cpu'' [101, 7592])],
                   [(''input_ids'', PyTensor Int64 ''cpu'' [101, 2088]),
                    (''task_name'', PyStr ''stale'')]]\<rparr>"

section \<open>Properties\<close>

subsection \<open>Architecture lookup\<close>

text \<open>
  C3. For every model, \<open>get_encoder_attr_name\<close> returns \<open>bert\<close> when the class name
  starts with \<open>Bert\<close>, \<open>roberta\<close> when it starts with \<open>Roberta\<close>, \<open>albert\<close> when it
  starts with \<open>Albert\<close>, and raises (a \<open>KeyError\<close> that names the class) for every class
  name with none of the three prefixes.
\<close>

theorem get_encoder_attr_name_spec:
  "(prefix ''Bert'' n \<longrightarrow> get_encoder_attr_name n = Inr ''bert'') \<and>
   (prefix ''Roberta'' n \<longrightarrow> get_encoder_attr_name n = Inr ''roberta'') \<and>
   (prefix ''Albert'' n \<longrightarrow> get_encoder_attr_name n = Inr ''albert'') \<and>
   (\<not> prefix ''Bert'' n \<and> \<not> prefix ''Roberta'' n \<and> \<not> prefix ''Albert'' n \<longrightarrow>
      get_encoder_attr_name n = Inl (KeyError (''Add support for new model '' @ n)))"
  by (auto simp: get_encoder_attr_name_def prefix_def)

theorem get_encoder_attr_name_spec_witness:
  "get_encoder_attr_name ''BertForSequenceClassification'' = Inr ''bert'' \<and>
   get_encoder_attr_name ''RobertaForTokenClassification'' = Inr ''roberta'' \<and>
   get_encoder_attr_name ''AlbertForMultipleChoice'' = Inr ''albert'' \<and>
   get_encoder_attr_name ''XLNetLMHeadModel'' =
     Inl (KeyError ''Add support for new model XLNetLMHeadModel'')"
  using get_encoder_attr_name_spec [of "''BertForSequenceClassification''"]
        get_encoder_attr_name_spec [of "''RobertaForTokenClassification''"]
        get_encoder_attr_name_spec [of "''AlbertForMultipleChoice''"]
        get_encoder_attr_name_spec [of "''XLNetLMHeadModel''"]
  by (simp add: prefix_def)

subsection \<open>Encoder sharing\<close>






text \<open>
  The loop of \<open>create\<close> runs to its end whenever every task has a configuration and
  the loader returns models that hold an encoder under the attribute of their
  architecture; \<open>create\<close> then returns unless \<^verbatim>\<open>nn.ModuleDict\<close> refuses a task
  name.
\<close>

lemma create_loop_returns:
  assumes "\<forall>(t, mt) \<in> set model_type_dict. t \<in> fst ` set model_config_dict"
      and "\<And>mt n cfg h. \<exists>m h'. fp mt n cfg h = Inr (m, h') \<and> encoder_of m \<noteq> None"
  shows "\<exists>r. create_loop fp model_name model_config_dict model_type_dict sh tmd h = Inr r"
  using assms(1)
proof (induction model_type_dict arbitrary: sh tmd h)
  case Nil
  then show ?case by simp
next
  case (Cons x items)
  obtain t mt where x: "x = (t, mt)" by (cases x)
  from Cons.prems x obtain cfg where cfg: "map_of model_config_dict t = Some cfg"
    by (metis (mono_tags, lifting) case_prodD list.set_intros(1) map_of_eq_None_iff not_Some_eq)
  from assms(2) obtain m h1 where
    m: "fp mt model_name cfg h = Inr (m, h1)" "encoder_of m \<noteq> None"
    by blast
  from m(2) obtain a r where
    a: "get_encoder_attr_name (class_name m) = Inr a" "map_of (attrs m) a = Some r"
    by (auto simp: encoder_of_def split: sum.splits)
  from Cons.prems have rest: "\<forall>(t, mt) \<in> set items. t \<in> fst ` set model_config_dict"
    by simp
  show ?case
    using Cons.IH[OF rest] x cfg m(1) a
    by (cases sh) (simp_all add: getattr_def)
qed


lemma create_reserved_task_name:
  "create nn_module_attrs load_fresh ''bert-base-cased''
     [(''train'', ''BertForSequenceClassification'')] [(''train'', 2::nat)] 0 =
     Inl (KeyError ''attribute already exists: train'') \<and>
   create nn_module_attrs load_fresh ''bert-base-cased''
     [(''sst.2'', ''BertForSequenceClassification'')] [(''sst.2'', 2::nat)] 0 =
     Inl (KeyError ''module name cannot contain a dot: sst.2'')"
  by (simp add: create_def load_fresh_def linear_head_def get_encoder_attr_name_def
      getattr_def MultitaskModel_init_def ModuleDict_def nn_module_attrs_def)





subsection \<open>Routing\<close>

text \<open>
  C6, as the code has it. For every model and every task identifier: when the
  identifier is absent from the head mapping, \<open>forward\<close> raises the \<open>KeyError\<close> of the
  failed subscript, carrying the identifier; when it is present, it has a head, and
  the outcome of \<open>forward\<close> is exactly the outcome of invoking that head on the keyword
  inputs: the head's result, or the exception the head raises.
\<close>

theorem forward_outcome:
  "(tn \<notin> fst ` set (taskmodels_dict self) \<longrightarrow>
      forward store self tn kwargs = Inl (KeyError tn)) \<and>
   (tn \<in> fst ` set (taskmodels_dict self) \<longrightarrow>
      (\<exists>head. map_of (taskmodels_dict self) tn = Some head)) \<and>
   (\<forall>head. map_of (taskmodels_dict self) tn = Some head \<longrightarrow>
      forward store self tn kwargs = invoke store head kwargs)"
proof -
  have "map_of (taskmodels_dict self) tn = None \<longleftrightarrow>
        tn \<notin> fst ` set (taskmodels_dict self)"
    by (rule map_of_eq_None_iff)
  then show ?thesis
    by (cases "map_of (taskmodels_dict self) tn") (auto simp: forward_def)
qed

theorem forward_outcome_witness:
  "forward (Map.empty(0 \<mapsto> 3))
     \<lparr>encoder = Some 0,
      taskmodels_dict = [(''sentiment'', linear_head ''BertForSequenceClassification'' ''bert''
                            [(''bert'', 0)])]\<rparr>
     ''topic'' 10 = Inl (KeyError ''topic'') \<and>
   forward (Map.empty(0 \<mapsto> 3))
     \<lparr>encoder = Some 0,
      taskmodels_dict = [(''sentiment'', linear_head ''BertForSequenceClassification'' ''bert''
                            [(''bert'', 0)])]\<rparr>
     ''sentiment'' 10 = Inr 30"
  using forward_outcome [of "''topic''"
      "\<lparr>encoder = Some 0,
        taskmodels_dict = [(''sentiment'', linear_head ''BertForSequenceClassification'' ''bert''
                              [(''bert'', 0)])]\<rparr>" "Map.empty(0 \<mapsto> 3)" 10]
    forward_outcome [of "''sentiment''"
      "\<lparr>encoder = Some 0,
        taskmodels_dict = [(''sentiment'', linear_head ''BertForSequenceClassification'' ''bert''
                              [(''bert'', 0)])]\<rparr>" "Map.empty(0 \<mapsto> 3)" 10]
  by (simp add: invoke_def submodule_def linear_head_def)

text \<open>
  The task is present and \<open>forward\<close> raises a \<open>KeyError\<close> all the same: the one its head
  raises for a keyword input that was not given.
\<close>

theorem forward_outcome_counterexample:
  "''sentiment'' \<in> fst ` set (taskmodels_dict
      \<lparr>encoder = Some 0,
       taskmodels_dict = [(''sentiment'', lookup_head ''BertForSequenceClassification''
                             [(''bert'', 0)])]\<rparr>) \<and>
   forward (Map.empty(0 \<mapsto> 3))
     \<lparr>encoder = Some 0,
      taskmodels_dict = [(''sentiment'', lookup_head ''BertForSequenceClassification''
                            [(''bert'', 0)])]\<rparr>
     ''sentiment'' [(''labels'', 1)] = Inl (KeyError ''input_ids'')"
  by (simp add: forward_def invoke_def lookup_head_def)

subsection \<open>The empty task mapping\<close>

text \<open>
  C8, as the code has it. On an empty task-to-model-type mapping \<open>create\<close> returns a
  model whose encoder is \<open>None\<close> and whose head mapping is empty, and every \<open>forward\<close>
  call on it raises the \<open>KeyError\<close> of the failed subscript, carrying the task
  identifier that was asked for: the same error as for any absent task.
\<close>

theorem create_empty:
  "create reserved fp model_name [] model_config_dict h =
     Inr (\<lparr>encoder = None, taskmodels_dict = []\<rparr>, h) \<and>
   forward store \<lparr>encoder = None, taskmodels_dict = []\<rparr> tn kwargs =
     Inl (KeyError tn)"
  by (simp add: create_def MultitaskModel_init_def ModuleDict_def forward_def)

text \<open>
  The error of a \<open>forward\<close> call on the empty model names the task, not a missing
  configuration: no error of the code says that no tasks are configured.
\<close>

theorem create_empty_counterexample:
  "create nn_module_attrs load_fresh ''bert-base-cased'' [] ([] :: (string \<times> nat) list) 0 =
     Inr (\<lparr>encoder = None, taskmodels_dict = []\<rparr>, 0) \<and>
   forward (Map.empty :: ref \<rightharpoonup> int)
     (\<lparr>encoder = None, taskmodels_dict = []\<rparr> :: (int, int, int) MultitaskModel)
     ''sentiment'' 4 = Inl (KeyError ''sentiment'') \<and>
   forward (Map.empty :: ref \<rightharpoonup> int)
     (\<lparr>encoder = None, taskmodels_dict = []\<rparr> :: (int, int, int) MultitaskModel)
     ''sentiment'' 4 \<noteq> Inl (KeyError ''no tasks configured'')"
  by (simp add: create_def MultitaskModel_init_def ModuleDict_def forward_def)

subsection \<open>The proportional sampler\<close>

lemma drawn_from_Nil [simp]: "drawn_from i cs [] = []"
  by (simp add: drawn_from_def)

lemma drawn_from_Cons [simp]:
  "drawn_from i (c # cs) (y # ys) = (if c = i then y # drawn_from i cs ys else drawn_from i cs ys)"
  by (simp add: drawn_from_def)

lemma iter_loop_run:
  assumes "distinct tns"
  shows "(\<forall>c \<in> set cs. c < length tns) \<Longrightarrow>
     (\<forall>i<length tns. map_of its (tns ! i) = Some (f i)) \<Longrightarrow>
     \<exists>ys e. iter_loop tns its cs = (ys, e) \<and> length ys \<le> length cs \<and>
       (\<forall>i<length tns. drawn_from i cs ys = take (count_list (take (length ys) cs) i) (f i)) \<and>
       (e = None \<or> e = Some GeneratorStop) \<and>
       (e = None \<longrightarrow> length ys = length cs \<and> (\<forall>i<length tns. count_list cs i \<le> length (f i))) \<and>
       (e = Some GeneratorStop \<longrightarrow> length ys < length cs \<and>
          count_list (take (length ys) cs) (cs ! length ys) = length (f (cs ! length ys)))"
proof (induction cs arbitrary: its f)
  case Nil
  then show ?case by simp
next
  case (Cons c cs)
  from Cons.prems have c: "c < length tns" and cs: "\<forall>c \<in> set cs. c < length tns"
    and look: "map_of its (tns ! c) = Some (f c)" by auto
  show ?case
  proof (cases "f c")
    case Nil
    with c look show ?thesis by simp
  next
    case (Cons b bs)
    let ?its = "AList.update (tns ! c) bs its"
    let ?f = "f(c := bs)"
    have inv: "\<forall>i<length tns. map_of ?its (tns ! i) = Some (?f i)"
      using Cons.prems(2) c assms by (auto simp: update_conv' nth_eq_iff_index_eq)
    from Cons.IH[OF cs inv] obtain ys e where
      run: "iter_loop tns ?its cs = (ys, e)" and len: "length ys \<le> length cs"
      and drawn: "\<forall>i<length tns. drawn_from i cs ys = take (count_list (take (length ys) cs) i) (?f i)"
      and e: "e = None \<or> e = Some GeneratorStop"
      and fin: "e = None \<longrightarrow> length ys = length cs \<and> (\<forall>i<length tns. count_list cs i \<le> length (?f i))"
      and stop: "e = Some GeneratorStop \<longrightarrow> length ys < length cs \<and>
          count_list (take (length ys) cs) (cs ! length ys) = length (?f (cs ! length ys))"
      by blast
    have r: "iter_loop tns its (c # cs) = (b # ys, e)"
      using c look Cons run by simp
    have d: "\<forall>i<length tns. drawn_from i (c # cs) (b # ys) =
               take (count_list (take (length (b # ys)) (c # cs)) i) (f i)"
      using drawn Cons by auto
    have f1: "e = None \<longrightarrow> length (b # ys) = length (c # cs) \<and>
               (\<forall>i<length tns. count_list (c # cs) i \<le> length (f i))"
      using fin Cons by (auto split: if_splits)
    have f2: "e = Some GeneratorStop \<longrightarrow> length (b # ys) < length (c # cs) \<and>
          count_list (take (length (b # ys)) (c # cs)) ((c # cs) ! length (b # ys)) =
          length (f ((c # cs) ! length (b # ys)))"
      using stop Cons by (auto split: if_splits)
    show ?thesis
      using r len d e f1 f2 by (intro exI[of _ "b # ys"] exI[of _ e]) simp
  qed
qed


lemma count_list_replicate: "count_list (replicate n x) y = (if x = y then n else 0)"
  by (induction n) auto

lemma count_list_take_nth:
  assumes "k < length xs"
  shows "Suc (count_list (take k xs) (xs ! k)) \<le> count_list xs (xs ! k)"
proof -
  have "xs = take k xs @ xs ! k # drop (Suc k) xs"
    using assms by (rule id_take_nth_drop)
  then have "count_list xs (xs ! k) =
      count_list (take k xs) (xs ! k) + count_list (xs ! k # drop (Suc k) xs) (xs ! k)"
    by (metis count_list_append)
  then show ?thesis by simp
qed

lemma build_choices_counts:
  "(\<forall>(tn, dl) \<in> set ds. map_of nbd tn = Some (num_batches dl)) \<Longrightarrow>
   \<exists>cs. build_choices nbd i (map fst ds) = Inr cs \<and>
        length cs = sum_list (map (\<lambda>(tn, dl). num_batches dl) ds) \<and>
        (\<forall>c \<in> set cs. i \<le> c \<and> c < i + length ds) \<and>
        (\<forall>j<length ds. count_list cs (i + j) = num_batches (snd (ds ! j)))"
proof (induction ds arbitrary: i)
  case Nil
  then show ?case by simp
next
  case (Cons x ds)
  obtain tn dl where x: "x = (tn, dl)" by (cases x)
  from Cons.prems x have look: "map_of nbd tn = Some (num_batches dl)"
    and rest: "\<forall>(tn, dl) \<in> set ds. map_of nbd tn = Some (num_batches dl)" by auto
  from Cons.IH[OF rest, of "Suc i"] obtain cs where
    b: "build_choices nbd (Suc i) (map fst ds) = Inr cs"
    and l: "length cs = sum_list (map (\<lambda>(tn, dl). num_batches dl) ds)"
    and r: "\<forall>c \<in> set cs. Suc i \<le> c \<and> c < Suc i + length ds"
    and n: "\<forall>j<length ds. count_list cs (Suc i + j) = num_batches (snd (ds ! j))"
    by blast
  let ?cs = "replicate (num_batches dl) i @ cs"
  have "build_choices nbd i (map fst (x # ds)) = Inr ?cs"
    using x look b by simp
  moreover have "length ?cs = sum_list (map (\<lambda>(tn, dl). num_batches dl) (x # ds))"
    using x l by simp
  moreover have "\<forall>c \<in> set ?cs. i \<le> c \<and> c < i + length (x # ds)"
    using r by auto
  moreover have "\<forall>j<length (x # ds). count_list ?cs (i + j) = num_batches (snd ((x # ds) ! j))"
  proof (intro allI impI)
    fix j assume j: "j < length (x # ds)"
    show "count_list ?cs (i + j) = num_batches (snd ((x # ds) ! j))"
    proof (cases j)
      case 0
      have "i \<notin> set cs" using r by auto
      then have "count_list cs i = 0" by (simp add: count_list_0_iff)
      with 0 x show ?thesis by (simp add: count_list_replicate)
    next
      case (Suc j')
      with j n have "count_list cs (Suc i + j') = num_batches (snd (ds ! j'))" by simp
      with Suc show ?thesis by (simp add: count_list_replicate)
    qed
  qed
  ultimately show ?case by blast
qed

lemma map_of_num_batches:
  assumes "distinct (map fst dd)"
  shows "\<forall>(tn, dl) \<in> set dd. map_of (map (\<lambda>(tn, dl). (tn, num_batches dl)) dd) tn = Some (num_batches dl)"
  using assms by (induction dd) (auto simp: rev_image_eqI)

lemma map_of_iterators:
  assumes "distinct (map fst dd)"
  shows "\<forall>i<length dd. map_of (map (\<lambda>(tn, dl). (tn, batches dl)) dd) (map fst dd ! i) =
           Some (batches (snd (dd ! i)))"
proof (intro allI impI)
  fix i assume i: "i < length dd"
  have "map_of dd (fst (dd ! i)) = Some (snd (dd ! i))"
    using assms i by (simp add: map_of_eq_Some_iff)
  moreover have "map_of (map (\<lambda>(tn, dl). (tn, batches dl)) dd) = map_option batches \<circ> map_of dd"
    by (rule ext) (induction dd, auto)
  ultimately show "map_of (map (\<lambda>(tn, dl). (tn, batches dl)) dd) (map fst dd ! i) =
           Some (batches (snd (dd ! i)))"
    using i by simp
qed

lemma MultitaskDataloader_run:
  assumes keys: "distinct (map fst dd)"
      and perm: "\<And>xs. mset (shuffle xs) = mset xs"
  shows "\<exists>cs ys e.
      build_choices (num_batches_dict (MultitaskDataloader_init dd)) 0
        (task_name_list (MultitaskDataloader_init dd)) = Inr cs \<and>
      MultitaskDataloader_iter shuffle (MultitaskDataloader_init dd) = (ys, e) \<and>
      length (shuffle cs) = MultitaskDataloader_len (MultitaskDataloader_init dd) \<and>
      MultitaskDataloader_len (MultitaskDataloader_init dd) =
        sum_list (map (\<lambda>(tn, dl). num_batches dl) dd) \<and>
      (\<forall>c \<in> set (shuffle cs). c < length dd) \<and>
      (\<forall>i<length dd. count_list (shuffle cs) i = num_batches (snd (dd ! i))) \<and>
      length ys \<le> length (shuffle cs) \<and>
      (\<forall>i<length dd. drawn_from i (shuffle cs) ys =
          take (count_list (take (length ys) (shuffle cs)) i) (batches (snd (dd ! i)))) \<and>
      (e = None \<or> e = Some GeneratorStop) \<and>
      (e = None \<longrightarrow> length ys = length (shuffle cs) \<and>
          (\<forall>i<length dd. count_list (shuffle cs) i \<le> length (batches (snd (dd ! i))))) \<and>
      (e = Some GeneratorStop \<longrightarrow> length ys < length (shuffle cs) \<and>
          count_list (take (length ys) (shuffle cs)) (shuffle cs ! length ys) =
          length (batches (snd (dd ! (shuffle cs ! length ys)))))"
proof -
  let ?self = "MultitaskDataloader_init dd"
  let ?nbd = "map (\<lambda>(tn, dl). (tn, num_batches dl)) dd"
  from build_choices_counts[OF map_of_num_batches[OF keys], of 0] obtain cs where
    b: "build_choices ?nbd 0 (map fst dd) = Inr cs"
    and l: "length cs = sum_list (map (\<lambda>(tn, dl). num_batches dl) dd)"
    and r: "\<forall>c \<in> set cs. c < length dd"
    and n: "\<forall>j<length dd. count_list cs j = num_batches (snd (dd ! j))"
    by auto
  let ?cs = "shuffle cs"
  have pl: "length ?cs = length cs" using perm[of cs] by (rule mset_eq_length)
  have ps: "set ?cs = set cs" using perm[of cs] by (rule mset_eq_setD)
  have pc: "count_list ?cs i = count_list cs i" for i
    using perm[of cs] by (metis count_mset)
  have len: "MultitaskDataloader_len ?self = sum_list (map (\<lambda>(tn, dl). num_batches dl) dd)"
    by (simp add: MultitaskDataloader_len_def MultitaskDataloader_init_def comp_def split_def)
  have "distinct (map fst dd)" by (rule keys)
  moreover have "\<forall>c \<in> set ?cs. c < length (map fst dd)" using ps r by simp
  moreover have "\<forall>i<length (map fst dd).
      map_of (map (\<lambda>(tn, dl). (tn, batches dl)) dd) (map fst dd ! i) = Some (batches (snd (dd ! i)))"
    using map_of_iterators[OF keys] by simp
  ultimately obtain ys e where
    run: "iter_loop (map fst dd) (map (\<lambda>(tn, dl). (tn, batches dl)) dd) ?cs = (ys, e)"
    and rest: "length ys \<le> length ?cs"
      "\<forall>i<length (map fst dd). drawn_from i ?cs ys =
          take (count_list (take (length ys) ?cs) i) (batches (snd (dd ! i)))"
      "e = None \<or> e = Some GeneratorStop"
      "e = None \<longrightarrow> length ys = length ?cs \<and>
          (\<forall>i<length (map fst dd). count_list ?cs i \<le> length (batches (snd (dd ! i))))"
      "e = Some GeneratorStop \<longrightarrow> length ys < length ?cs \<and>
          count_list (take (length ys) ?cs) (?cs ! length ys) =
          length (batches (snd (dd ! (?cs ! length ys))))"
    using iter_loop_run[of "map fst dd" ?cs "map (\<lambda>(tn, dl). (tn, batches dl)) dd"
        "\<lambda>i. batches (snd (dd ! i))"]
    by blast
  have b': "build_choices (num_batches_dict ?self) 0 (task_name_list ?self) = Inr cs"
    using b by (simp add: MultitaskDataloader_init_def)
  have it: "MultitaskDataloader_iter shuffle ?self = (ys, e)"
    using b run by (simp add: MultitaskDataloader_iter_def MultitaskDataloader_init_def)
  show ?thesis
    using b' it pl l len ps r pc n rest
    by (intro exI[of _ cs] exI[of _ ys] exI[of _ e]) simp
qed

lemma mset_cut: "mset (cut n xs) = mset xs"
proof -
  have "mset (cut n xs) = mset (drop n xs) + mset (take n xs)"
    by (simp add: cut_def)
  also have "\<dots> = mset (take n xs @ drop n xs)"
    by (simp only: mset_append union_commute)
  finally show ?thesis by simp
qed

text \<open>
  C1. For every mapping from task identifiers to data loaders (a dict: its keys are
  distinct) in which each loader's iterator supplies at least its declared batch
  count, and for every shuffle, one pass over \<open>__iter__\<close> ends without an error; the
  batches drawn at the steps that chose task \<open>i\<close> are the first \<open>num_batches\<close> batches
  of task \<open>i\<close>'s loader, in order, so each task is drawn exactly its declared batch
  count of times; the number of yielded batches is the sum of the declared batch
  counts; and \<open>__len__\<close> returns that sum.
\<close>

theorem MultitaskDataloader_full_pass:
  assumes keys: "distinct (map fst dd)"
      and supplied: "\<forall>(tn, dl) \<in> set dd. num_batches dl \<le> length (batches dl)"
      and perm: "\<And>xs. mset (shuffle xs) = mset xs"
  shows "\<exists>cs ys.
      build_choices (num_batches_dict (MultitaskDataloader_init dd)) 0
        (task_name_list (MultitaskDataloader_init dd)) = Inr cs \<and>
      MultitaskDataloader_iter shuffle (MultitaskDataloader_init dd) = (ys, None) \<and>
      length ys = sum_list (map (\<lambda>(tn, dl). num_batches dl) dd) \<and>
      MultitaskDataloader_len (MultitaskDataloader_init dd) =
        sum_list (map (\<lambda>(tn, dl). num_batches dl) dd) \<and>
      (\<forall>i<length dd.
         drawn_from i (shuffle cs) ys = take (num_batches (snd (dd ! i))) (batches (snd (dd ! i))) \<and>
         length (drawn_from i (shuffle cs) ys) = num_batches (snd (dd ! i)))"
proof -
  let ?self = "MultitaskDataloader_init dd"
  from MultitaskDataloader_run[OF keys perm] obtain cs ys e where
    b: "build_choices (num_batches_dict ?self) 0 (task_name_list ?self) = Inr cs"
    and it: "MultitaskDataloader_iter shuffle ?self = (ys, e)"
    and tot: "length (shuffle cs) = MultitaskDataloader_len ?self"
    and len: "MultitaskDataloader_len ?self = sum_list (map (\<lambda>(tn, dl). num_batches dl) dd)"
    and rng: "\<forall>c \<in> set (shuffle cs). c < length dd"
    and cnt: "\<forall>i<length dd. count_list (shuffle cs) i = num_batches (snd (dd ! i))"
    and drawn: "\<forall>i<length dd. drawn_from i (shuffle cs) ys =
          take (count_list (take (length ys) (shuffle cs)) i) (batches (snd (dd ! i)))"
    and e: "e = None \<or> e = Some GeneratorStop"
    and fin: "e = None \<longrightarrow> length ys = length (shuffle cs)"
    and stop: "e = Some GeneratorStop \<longrightarrow> length ys < length (shuffle cs) \<and>
          count_list (take (length ys) (shuffle cs)) (shuffle cs ! length ys) =
          length (batches (snd (dd ! (shuffle cs ! length ys))))"
    by blast
  have enough: "num_batches (snd (dd ! i)) \<le> length (batches (snd (dd ! i)))" if "i < length dd" for i
  proof -
    from that have "dd ! i \<in> set dd" by simp
    with supplied show ?thesis by (cases "dd ! i") auto
  qed
  have none: "e = None"
  proof (rule ccontr)
    assume "e \<noteq> None"
    with e stop have k: "length ys < length (shuffle cs)"
      and full: "count_list (take (length ys) (shuffle cs)) (shuffle cs ! length ys) =
          length (batches (snd (dd ! (shuffle cs ! length ys))))"
      by auto
    let ?c = "shuffle cs ! length ys"
    from k rng have c: "?c < length dd" by simp
    from count_list_take_nth[OF k] full
    have "Suc (length (batches (snd (dd ! ?c)))) \<le> count_list (shuffle cs) ?c" by simp
    with cnt c enough[OF c] show False by simp
  qed
  with fin have all: "length ys = length (shuffle cs)" by simp
  have d: "drawn_from i (shuffle cs) ys = take (num_batches (snd (dd ! i))) (batches (snd (dd ! i))) \<and>
         length (drawn_from i (shuffle cs) ys) = num_batches (snd (dd ! i))" if "i < length dd" for i
    using drawn cnt all enough[OF that] that by simp
  show ?thesis
    using b it none all tot len d enough by (intro exI[of _ cs] exI[of _ ys]) simp
qed

theorem MultitaskDataloader_full_pass_witness:
  "MultitaskDataloader_iter (cut 2) (MultitaskDataloader_init loaders_3_7) =
     ([''a0'', ''b0'', ''b1'', ''b2'', ''b3'', ''b4'', ''b5'', ''b6'', ''a1'', ''a2''], None) \<and>
   MultitaskDataloader_len (MultitaskDataloader_init loaders_3_7) = 10 \<and>
   drawn_from 0 (cut 2 [0, 0, 0, 1, 1, 1, 1, 1, 1, 1])
     [''a0'', ''b0'', ''b1'', ''b2'', ''b3'', ''b4'', ''b5'', ''b6'', ''a1'', ''a2''] =
     [''a0'', ''a1'', ''a2'']"
proof -
  have k: "distinct (map fst loaders_3_7)"
    by (simp add: loaders_3_7_def)
  have s: "\<forall>(tn, dl) \<in> set loaders_3_7. num_batches dl \<le> length (batches dl)"
    by (simp add: loaders_3_7_def)
  from MultitaskDataloader_full_pass[where shuffle = "cut 2", OF k s mset_cut]
  have "MultitaskDataloader_len (MultitaskDataloader_init loaders_3_7) =
          sum_list (map (\<lambda>(tn, dl). num_batches dl) loaders_3_7)"
    by blast
  then have "MultitaskDataloader_len (MultitaskDataloader_init loaders_3_7) = 10"
    by (simp add: loaders_3_7_def)
  moreover have "MultitaskDataloader_iter (cut 2) (MultitaskDataloader_init loaders_3_7) =
     ([''a0'', ''b0'', ''b1'', ''b2'', ''b3'', ''b4'', ''b5'', ''b6'', ''a1'', ''a2''], None)"
    by code_simp
  moreover have "drawn_from 0 (cut 2 [0, 0, 0, 1, 1, 1, 1, 1, 1, 1])
     [''a0'', ''b0'', ''b1'', ''b2'', ''b3'', ''b4'', ''b5'', ''b6'', ''a1'', ''a2''] =
     [''a0'', ''a1'', ''a2'']"
    by code_simp
  ultimately show ?thesis by simp
qed

text \<open>
  C7. For every mapping in which some task's declared batch count exceeds the number
  of batches its iterator supplies, and for every shuffle, the pass ends in the
  exhaustion error, before the declared total is reached. The step that fails chose a
  task whose declared count exceeds its supply, at the moment all of its batches have
  been drawn; every batch yielded before that step is the right one, and nothing is
  yielded after it.
\<close>

theorem MultitaskDataloader_exhausted:
  assumes keys: "distinct (map fst dd)"
      and short: "\<exists>(tn, dl) \<in> set dd. length (batches dl) < num_batches dl"
      and perm: "\<And>xs. mset (shuffle xs) = mset xs"
  shows "\<exists>cs ys.
      build_choices (num_batches_dict (MultitaskDataloader_init dd)) 0
        (task_name_list (MultitaskDataloader_init dd)) = Inr cs \<and>
      MultitaskDataloader_iter shuffle (MultitaskDataloader_init dd) = (ys, Some GeneratorStop) \<and>
      length ys < MultitaskDataloader_len (MultitaskDataloader_init dd) \<and>
      shuffle cs ! length ys < length dd \<and>
      length (batches (snd (dd ! (shuffle cs ! length ys)))) <
        num_batches (snd (dd ! (shuffle cs ! length ys))) \<and>
      count_list (take (length ys) (shuffle cs)) (shuffle cs ! length ys) =
        length (batches (snd (dd ! (shuffle cs ! length ys)))) \<and>
      (\<forall>i<length dd. drawn_from i (shuffle cs) ys =
         take (count_list (take (length ys) (shuffle cs)) i) (batches (snd (dd ! i))))"
proof -
  let ?self = "MultitaskDataloader_init dd"
  from MultitaskDataloader_run[OF keys perm] obtain cs ys e where
    b: "build_choices (num_batches_dict ?self) 0 (task_name_list ?self) = Inr cs"
    and it: "MultitaskDataloader_iter shuffle ?self = (ys, e)"
    and tot: "length (shuffle cs) = MultitaskDataloader_len ?self"
    and rng: "\<forall>c \<in> set (shuffle cs). c < length dd"
    and cnt: "\<forall>i<length dd. count_list (shuffle cs) i = num_batches (snd (dd ! i))"
    and drawn: "\<forall>i<length dd. drawn_from i (shuffle cs) ys =
          take (count_list (take (length ys) (shuffle cs)) i) (batches (snd (dd ! i)))"
    and e: "e = None \<or> e = Some GeneratorStop"
    and fin: "e = None \<longrightarrow>
          (\<forall>i<length dd. count_list (shuffle cs) i \<le> length (batches (snd (dd ! i))))"
    and stop: "e = Some GeneratorStop \<longrightarrow> length ys < length (shuffle cs) \<and>
          count_list (take (length ys) (shuffle cs)) (shuffle cs ! length ys) =
          length (batches (snd (dd ! (shuffle cs ! length ys))))"
    by blast
  from short obtain tn dl where "(tn, dl) \<in> set dd" "length (batches dl) < num_batches dl"
    by auto
  then obtain i where i: "i < length dd" "length (batches (snd (dd ! i))) < num_batches (snd (dd ! i))"
    by (metis in_set_conv_nth snd_conv)
  have "e \<noteq> None"
  proof
    assume "e = None"
    with fin i(1) have "count_list (shuffle cs) i \<le> length (batches (snd (dd ! i)))" by simp
    with cnt i show False by simp
  qed
  with e have e': "e = Some GeneratorStop" by simp
  with stop have k: "length ys < length (shuffle cs)"
    and full: "count_list (take (length ys) (shuffle cs)) (shuffle cs ! length ys) =
          length (batches (snd (dd ! (shuffle cs ! length ys))))"
    by auto
  let ?c = "shuffle cs ! length ys"
  from k rng have c: "?c < length dd" by simp
  from count_list_take_nth[OF k] full
  have "Suc (length (batches (snd (dd ! ?c)))) \<le> count_list (shuffle cs) ?c" by simp
  with cnt c have mis: "length (batches (snd (dd ! ?c))) < num_batches (snd (dd ! ?c))" by simp
  show ?thesis
    using b it e' k tot c mis full drawn by (intro exI[of _ cs] exI[of _ ys]) simp
qed

theorem MultitaskDataloader_exhausted_witness:
  "MultitaskDataloader_iter (cut 2) (MultitaskDataloader_init loaders_short) =
     ([''a0'', ''b0'', ''b1'', ''a1''], Some GeneratorStop) \<and>
   MultitaskDataloader_len (MultitaskDataloader_init loaders_short) = 5 \<and>
   cut 2 [0, 0, 0, 1, 1] ! 4 = 0"
proof -
  have k: "distinct (map fst loaders_short)"
    by (simp add: loaders_short_def)
  have s: "\<exists>(tn, dl) \<in> set loaders_short. length (batches dl) < num_batches dl"
    by (simp add: loaders_short_def)
  from MultitaskDataloader_exhausted[where shuffle = "cut 2", OF k s mset_cut]
  have "\<exists>ys. MultitaskDataloader_iter (cut 2) (MultitaskDataloader_init loaders_short) =
          (ys, Some GeneratorStop)"
    by blast
  moreover have "MultitaskDataloader_iter (cut 2) (MultitaskDataloader_init loaders_short) =
     ([''a0'', ''b0'', ''b1'', ''a1''], Some GeneratorStop)"
    by code_simp
  moreover have "MultitaskDataloader_len (MultitaskDataloader_init loaders_short) = 5"
    by code_simp
  moreover have "cut 2 [0, 0, 0, 1, 1] ! 4 = (0 :: nat)"
    by code_simp
  ultimately show ?thesis by simp
qed

subsection \<open>The placeholder dataset\<close>

text \<open>
  C10. For every data loader mapping, the \<open>dataset\<close> attribute of the
  \<open>MultitaskDataloader\<close> built from it is a list whose length is the sum of the sizes
  of the per-task datasets and whose entries are all \<open>None\<close>.
\<close>

theorem MultitaskDataloader_dataset:
  "placeholder_dataset (MultitaskDataloader_init dd) =
     replicate (sum_list (map (\<lambda>(tn, dl). length (dataset dl)) dd)) None \<and>
   length (placeholder_dataset (MultitaskDataloader_init dd)) =
     sum_list (map (\<lambda>(tn, dl). length (dataset dl)) dd) \<and>
   set (placeholder_dataset (MultitaskDataloader_init dd)) \<subseteq> {None}"
  by (auto simp: MultitaskDataloader_init_def)

subsection \<open>The task name field\<close>

text \<open>
  C9. For every batch that \<open>DataLoaderWithTaskname\<close> yields and every device, the
  batch has the injected \<open>StrIgnoreDevice\<close> under \<open>task_name\<close>; calling \<open>to(device)\<close>
  on that field returns the field itself, without an error; and the field's string
  value is the wrapper's task name.
  The wrapper yields one batch for every batch of the loader it wraps.
\<close>

theorem task_name_field_inert:
  "(\<forall>batch \<in> set (DataLoaderWithTaskname_iter self).
      \<exists>field. field = StrIgnoreDevice (task_name self) \<and>
              map_of batch ''task_name'' = Some field \<and>
              call_to field device = Inr field \<and>
              str_of field = Some (task_name self)) \<and>
   length (DataLoaderWithTaskname_iter self) = length (batches (data_loader self))"
  by (auto simp: DataLoaderWithTaskname_iter_def update_conv' StrIgnoreDevice_to_def)

text \<open>
  The second batch of the wrapped loader already had a plain \<open>str\<close> under
  \<open>task_name\<close>, on which \<open>to\<close> fails; the wrapper replaces it.
\<close>

theorem task_name_field_inert_witness:
  "map (\<lambda>batch. map_of batch ''task_name'') (DataLoaderWithTaskname_iter sentiment_loader) =
     [Some (StrIgnoreDevice ''sentiment''), Some (StrIgnoreDevice ''sentiment'')] \<and>
   call_to (StrIgnoreDevice ''sentiment'' :: int list py_value) ''cuda:0'' =
     Inr (StrIgnoreDevice ''sentiment'') \<and>
   call_to (PyStr ''stale'' :: int list py_value) ''cuda:0'' = Inl (AttributeError ''to'') \<and>
   call_to (PyTensor Int64 ''cpu'' [101, 7592 :: int]) ''cuda:0'' =
     Inr (PyTensor Int64 ''cuda:0'' [101, 7592])"
  using task_name_field_inert [of sentiment_loader "''cuda:0''"]
  by (simp add: sentiment_loader_def DataLoaderWithTaskname_init_def
      DataLoaderWithTaskname_iter_def StrIgnoreDevice_to_def)

text \<open>
  The wrapper exposes the wrapped loader's batch count, dataset and batch size
  unchanged, and one batch for each of its batches.
\<close>

lemma as_DataLoader_init:
  "num_batches (as_DataLoader (DataLoaderWithTaskname_init tn dl)) = num_batches dl \<and>
   dataset (as_DataLoader (DataLoaderWithTaskname_init tn dl)) = dataset dl \<and>
   batch_size (as_DataLoader (DataLoaderWithTaskname_init tn dl)) = batch_size dl \<and>
   length (batches (as_DataLoader (DataLoaderWithTaskname_init tn dl))) = length (batches dl)"
  by (simp add: as_DataLoader_def DataLoaderWithTaskname_init_def DataLoaderWithTaskname_len_def
      DataLoaderWithTaskname_iter_def)

subsection \<open>The collator\<close>

lemma gather_dicts:
  "\<forall>f \<in> set fs. \<exists>d. f = DictExample d \<and> k \<in> fst ` set d \<Longrightarrow>
   \<exists>vs. gather k fs = Inr vs \<and> length vs = length fs \<and>
        (\<forall>j<length fs. getitem (fs ! j) k = Inr (vs ! j))"
proof (induction fs)
  case Nil
  then show ?case by simp
next
  case (Cons f fs)
  from Cons.prems obtain d where f: "f = DictExample d" and k: "k \<in> fst ` set d" by auto
  from k obtain v where v: "map_of d k = Some v"
    by (metis map_of_eq_None_iff not_Some_eq)
  from Cons.IH Cons.prems obtain vs where
    vs: "gather k fs = Inr vs" "length vs = length fs"
      "\<forall>j<length fs. getitem (fs ! j) k = Inr (vs ! j)"
    by auto
  have "\<forall>j<length (f # fs). getitem ((f # fs) ! j) k = Inr ((v # vs) ! j)"
  proof (intro allI impI)
    fix j assume "j < length (f # fs)"
    then show "getitem ((f # fs) ! j) k = Inr ((v # vs) ! j)"
      using f v vs(3) by (cases j) auto
  qed
  then show ?case using f v vs(1,2) by simp
qed

lemma collate_fields_Some:
  assumes "distinct (map fst items)"
      and "\<forall>(k, v) \<in> set items. k \<noteq> ''labels'' \<and> v \<noteq> PyNone \<and> \<not> isinstance_str v \<longrightarrow>
             (\<exists>vs s. gather k features = Inr vs \<and> ts vs = Inr s)"
  shows "\<exists>b'. collate_fields ts features items (Some b) = Inr (Some b') \<and>
          (\<forall>k. map_of b' k =
             (case map_of items k of
                None \<Rightarrow> map_of b k
              | Some v \<Rightarrow>
                  if k \<noteq> ''labels'' \<and> v \<noteq> PyNone \<and> \<not> isinstance_str v
                  then (case gather k features of
                          Inl e \<Rightarrow> None
                        | Inr vs \<Rightarrow> (case ts vs of Inl e \<Rightarrow> None | Inr s \<Rightarrow> Some s))
                  else map_of b k))"
  using assms
proof (induction items arbitrary: b)
  case Nil
  then show ?case by simp
next
  case (Cons x items)
  obtain k0 v0 where x: "x = (k0, v0)" by (cases x)
  from Cons.prems(1) x have dist: "distinct (map fst items)" and fresh: "map_of items k0 = None"
    by (auto simp: map_of_eq_None_iff)
  have lib: "\<forall>(k, v) \<in> set items. k \<noteq> ''labels'' \<and> v \<noteq> PyNone \<and> \<not> isinstance_str v \<longrightarrow>
             (\<exists>vs s. gather k features = Inr vs \<and> ts vs = Inr s)"
    using Cons.prems(2) by simp
  show ?case
  proof (cases "k0 \<noteq> ''labels'' \<and> v0 \<noteq> PyNone \<and> \<not> isinstance_str v0")
    case True
    with Cons.prems(2) x obtain vs s where
      col: "gather k0 features = Inr vs" "ts vs = Inr s" by auto
    from Cons.IH[where b = "AList.update k0 s b", OF dist lib] obtain b' where
      b': "collate_fields ts features items (Some (AList.update k0 s b)) = Inr (Some b')"
      and m: "\<forall>k. map_of b' k =
             (case map_of items k of
                None \<Rightarrow> map_of (AList.update k0 s b) k
              | Some v \<Rightarrow>
                  if k \<noteq> ''labels'' \<and> v \<noteq> PyNone \<and> \<not> isinstance_str v
                  then (case gather k features of
                          Inl e \<Rightarrow> None
                        | Inr vs \<Rightarrow> (case ts vs of Inl e \<Rightarrow> None | Inr s \<Rightarrow> Some s))
                  else map_of (AList.update k0 s b) k)"
      by blast
    have "collate_fields ts features (x # items) (Some b) = Inr (Some b')"
      using x True col b' by simp
    moreover have "map_of b' k =
             (case map_of (x # items) k of
                None \<Rightarrow> map_of b k
              | Some v \<Rightarrow>
                  if k \<noteq> ''labels'' \<and> v \<noteq> PyNone \<and> \<not> isinstance_str v
                  then (case gather k features of
                          Inl e \<Rightarrow> None
                        | Inr vs \<Rightarrow> (case ts vs of Inl e \<Rightarrow> None | Inr s \<Rightarrow> Some s))
                  else map_of b k)" for k
      using m[rule_format, of k] x True col fresh
      by (cases "k = k0") (auto simp: update_conv' split: option.splits)
    ultimately show ?thesis by blast
  next
    case False
    from Cons.IH[where b = b, OF dist lib] obtain b' where
      b': "collate_fields ts features items (Some b) = Inr (Some b')"
      and m: "\<forall>k. map_of b' k =
             (case map_of items k of
                None \<Rightarrow> map_of b k
              | Some v \<Rightarrow>
                  if k \<noteq> ''labels'' \<and> v \<noteq> PyNone \<and> \<not> isinstance_str v
                  then (case gather k features of
                          Inl e \<Rightarrow> None
                        | Inr vs \<Rightarrow> (case ts vs of Inl e \<Rightarrow> None | Inr s \<Rightarrow> Some s))
                  else map_of b k)"
      by blast
    have "collate_fields ts features (x # items) (Some b) = Inr (Some b')"
      using x False b' by auto
    moreover have "map_of b' k =
             (case map_of (x # items) k of
                None \<Rightarrow> map_of b k
              | Some v \<Rightarrow>
                  if k \<noteq> ''labels'' \<and> v \<noteq> PyNone \<and> \<not> isinstance_str v
                  then (case gather k features of
                          Inl e \<Rightarrow> None
                        | Inr vs \<Rightarrow> (case ts vs of Inl e \<Rightarrow> None | Inr s \<Rightarrow> Some s))
                  else map_of b k)" for k
      using m[rule_format, of k] x False fresh
      by (cases "k = k0") (auto split: option.splits)
    ultimately show ?thesis by blast
  qed
qed

text \<open>
  C4, as the code has it. Take a non-empty list of dict examples that share the
  field set of the first one, whose first \<open>labels\<close> value is a tensor, and on which the
  tensor library accepts the label column and every column it is asked to stack.
  Then \<open>collate_batch\<close> returns a mapping in which \<open>labels\<close> is what the library builds
  from all the examples' labels, in order, with dtype \<open>Int64\<close> when the first label's
  dtype is \<open>Int64\<close> and \<open>Float32\<close> otherwise; every other field whose value in the
  first example is neither \<open>None\<close> nor a string holds the stack of that field over all
  the examples; and fields whose value in the first example is \<open>None\<close> or a string,
  and names that are no field, are absent.
\<close>

theorem collate_batch_labelled:
  assumes first: "features = DictExample fd # others"
      and keys: "distinct (map fst fd)"
      and dicts: "\<forall>f \<in> set features. \<exists>d. f = DictExample d \<and> fst ` set d = fst ` set fd"
      and lab: "map_of fd ''labels'' = Some (PyTensor dt dev x)"
      and lib_tensor: "\<forall>ls. gather ''labels'' features = Inr ls \<longrightarrow>
             (\<exists>labels. tt ls (if dt = Int64 then Int64 else Float32) = Inr labels)"
      and lib_stack: "\<forall>(k, v) \<in> set fd. k \<noteq> ''labels'' \<and> v \<noteq> PyNone \<and> \<not> isinstance_str v \<longrightarrow>
             (\<forall>vs. gather k features = Inr vs \<longrightarrow> (\<exists>s. ts vs = Inr s))"
  shows "\<exists>batch ls labels.
           collate_batch tt ts dc features = Inr (Some batch) \<and>
           gather ''labels'' features = Inr ls \<and> length ls = length features \<and>
           (\<forall>j<length features. getitem (features ! j) ''labels'' = Inr (ls ! j)) \<and>
           tt ls (if dt = Int64 then Int64 else Float32) = Inr labels \<and>
           map_of batch ''labels'' = Some labels \<and>
           (\<forall>k v. (k, v) \<in> set fd \<and> k \<noteq> ''labels'' \<and> v \<noteq> PyNone \<and> \<not> isinstance_str v \<longrightarrow>
              (\<exists>vs s. gather k features = Inr vs \<and> length vs = length features \<and>
                 (\<forall>j<length features. getitem (features ! j) k = Inr (vs ! j)) \<and>
                 ts vs = Inr s \<and> map_of batch k = Some s)) \<and>
           (\<forall>k v. (k, v) \<in> set fd \<and> k \<noteq> ''labels'' \<and> (v = PyNone \<or> isinstance_str v) \<longrightarrow>
              map_of batch k = None) \<and>
           (\<forall>k. k \<notin> fst ` set fd \<longrightarrow> map_of batch k = None)"
proof -
  have col: "\<exists>vs. gather k features = Inr vs \<and> length vs = length features \<and>
        (\<forall>j<length features. getitem (features ! j) k = Inr (vs ! j))" if "k \<in> fst ` set fd" for k
  proof -
    have "\<forall>f \<in> set features. \<exists>d. f = DictExample d \<and> k \<in> fst ` set d"
    proof
      fix f assume "f \<in> set features"
      with dicts obtain d where "f = DictExample d" "fst ` set d = fst ` set fd" by blast
      with that show "\<exists>d. f = DictExample d \<and> k \<in> fst ` set d" by simp
    qed
    then show ?thesis by (rule gather_dicts)
  qed
  have labk: "''labels'' \<in> fst ` set fd"
    using lab by (metis map_of_eq_None_iff option.distinct(1))
  from col[OF labk] obtain ls where
    ls: "gather ''labels'' features = Inr ls" "length ls = length features"
      "\<forall>j<length features. getitem (features ! j) ''labels'' = Inr (ls ! j)"
    by blast
  from lib_tensor ls(1) obtain labels where
    labels: "tt ls (if dt = Int64 then Int64 else Float32) = Inr labels" by blast
  have step1: "collate_labels tt features fd = Inr (Some [(''labels'', labels)])"
    using lab ls(1) labels by (cases "dt = Int64") (simp_all add: collate_labels_def)
  have lib: "\<forall>(k, v) \<in> set fd. k \<noteq> ''labels'' \<and> v \<noteq> PyNone \<and> \<not> isinstance_str v \<longrightarrow>
             (\<exists>vs s. gather k features = Inr vs \<and> ts vs = Inr s)"
  proof (intro ballI, clarify)
    fix k v assume kv: "(k, v) \<in> set fd" "k \<noteq> ''labels''" "v \<noteq> PyNone" "\<not> isinstance_str v"
    from kv(1) have "k \<in> fst ` set fd" by force
    from col[OF this] obtain vs where "gather k features = Inr vs" by blast
    with lib_stack kv show "\<exists>vs s. gather k features = Inr vs \<and> ts vs = Inr s" by blast
  qed
  from collate_fields_Some[where b = "[(''labels'', labels)]", OF keys lib] obtain batch where
    run: "collate_fields ts features fd (Some [(''labels'', labels)]) = Inr (Some batch)"
    and m: "\<forall>k. map_of batch k =
             (case map_of fd k of
                None \<Rightarrow> map_of [(''labels'', labels)] k
              | Some v \<Rightarrow>
                  if k \<noteq> ''labels'' \<and> v \<noteq> PyNone \<and> \<not> isinstance_str v
                  then (case gather k features of
                          Inl e \<Rightarrow> None
                        | Inr vs \<Rightarrow> (case ts vs of Inl e \<Rightarrow> None | Inr s \<Rightarrow> Some s))
                  else map_of [(''labels'', labels)] k)"
    by blast
  have res: "collate_batch tt ts dc features = Inr (Some batch)"
    using first step1 run by (simp add: collate_batch_def)
  have l: "map_of batch ''labels'' = Some labels"
    using m[rule_format, of "''labels''"] lab by simp
  have st: "\<exists>vs s. gather k features = Inr vs \<and> length vs = length features \<and>
                 (\<forall>j<length features. getitem (features ! j) k = Inr (vs ! j)) \<and>
                 ts vs = Inr s \<and> map_of batch k = Some s"
    if "(k, v) \<in> set fd" "k \<noteq> ''labels''" "v \<noteq> PyNone" "\<not> isinstance_str v" for k v
  proof -
    from that(1) keys have look: "map_of fd k = Some v" by simp
    from that(1) have "k \<in> fst ` set fd" by force
    from col[OF this] obtain vs where
      vs: "gather k features = Inr vs" "length vs = length features"
        "\<forall>j<length features. getitem (features ! j) k = Inr (vs ! j)" by blast
    from lib_stack that vs(1) obtain s where s: "ts vs = Inr s" by blast
    have "map_of batch k = Some s"
      using m[rule_format, of k] look that vs(1) s by simp
    with vs s show ?thesis by blast
  qed
  have dr: "map_of batch k = None"
    if "(k, v) \<in> set fd" "k \<noteq> ''labels''" "v = PyNone \<or> isinstance_str v" for k v
  proof -
    from that(1) keys have look: "map_of fd k = Some v" by simp
    show ?thesis using m[rule_format, of k] look that by auto
  qed
  have ab: "map_of batch k = None" if "k \<notin> fst ` set fd" for k
  proof -
    from that have "map_of fd k = None" by (simp add: map_of_eq_None_iff)
    moreover from that labk have "k \<noteq> ''labels''" by auto
    ultimately show ?thesis using m[rule_format, of k] by simp
  qed
  show ?thesis
    using res ls labels l st dr ab
    by (intro exI[of _ batch] exI[of _ ls] exI[of _ labels]) blast
qed

text \<open>
  The collator example of the specification, with a string field and a null field that
  are dropped; and labels of dtype \<open>Int32\<close>, which are built as \<open>Float32\<close>.
\<close>

theorem collate_batch_labelled_witness:
  "collate_batch ints_tensor ints_stack no_default three_examples =
     Inr (Some [(''labels'', PyTensor Int64 ''cpu'' [1, 2, 3]),
                (''x'', PyTensor Float32 ''cpu'' [10, 11, 20, 21, 30, 31])]) \<and>
   collate_batch ints_tensor ints_stack no_default
     [DictExample [(''labels'', PyTensor Int32 ''cpu'' [4])],
      DictExample [(''labels'', PyTensor Int32 ''cpu'' [5])]] =
     Inr (Some [(''labels'', PyTensor Float32 ''cpu'' [4, 5])])"
proof -
  let ?fd = "[(''labels'', PyTensor Int64 ''cpu'' [1 :: int]), (''x'', PyTensor Float32 ''cpu'' [10, 11]),
              (''text'', PyStr ''good''), (''idx'', PyNone)]"
  let ?others = "[DictExample [(''labels'', PyTensor Int64 ''cpu'' [2 :: int]),
                    (''x'', PyTensor Float32 ''cpu'' [20, 21]),
                    (''text'', PyStr ''bad''), (''idx'', PyNone)],
                  DictExample [(''labels'', PyTensor Int64 ''cpu'' [3]),
                    (''x'', PyTensor Float32 ''cpu'' [30, 31]),
                    (''text'', PyStr ''fine''), (''idx'', PyNone)]] :: (int list, unit) example list"
  have first: "three_examples = DictExample ?fd # ?others"
    by (simp add: three_examples_def)
  have keys: "distinct (map fst ?fd)" by simp
  have dicts: "\<forall>f \<in> set three_examples. \<exists>d. f = DictExample d \<and> fst ` set d = fst ` set ?fd"
    by (simp add: three_examples_def)
  have lab: "map_of ?fd ''labels'' = Some (PyTensor Int64 ''cpu'' [1])" by simp
  have lib_tensor: "\<forall>ls. gather ''labels'' three_examples = Inr ls \<longrightarrow>
      (\<exists>labels. ints_tensor ls (if Int64 = Int64 then Int64 else Float32) = Inr labels)"
    by (auto simp: three_examples_def ints_tensor_def)
  have lib_stack: "\<forall>(k, v) \<in> set ?fd. k \<noteq> ''labels'' \<and> v \<noteq> PyNone \<and> \<not> isinstance_str v \<longrightarrow>
      (\<forall>vs. gather k three_examples = Inr vs \<longrightarrow> (\<exists>s. ints_stack vs = Inr s))"
    by (auto simp: three_examples_def ints_stack_def)
  from collate_batch_labelled[where tt = ints_tensor and ts = ints_stack and dc = no_default,
      OF first keys dicts lab lib_tensor lib_stack]
  have "\<exists>batch. collate_batch ints_tensor ints_stack no_default three_examples = Inr (Some batch)"
    by blast
  moreover have "collate_batch ints_tensor ints_stack no_default three_examples =
     Inr (Some [(''labels'', PyTensor Int64 ''cpu'' [1, 2, 3]),
                (''x'', PyTensor Float32 ''cpu'' [10, 11, 20, 21, 30, 31])])"
    by code_simp
  moreover have "collate_batch ints_tensor ints_stack no_default
     [DictExample [(''labels'', PyTensor Int32 ''cpu'' [4])],
      DictExample [(''labels'', PyTensor Int32 ''cpu'' [5])]] =
     Inr (Some [(''labels'', PyTensor Float32 ''cpu'' [4, 5])])"
    by code_simp
  ultimately show ?thesis by simp
qed

text \<open>
  Without those conditions \<open>collate_batch\<close> raises: on a \<open>labels\<close> value that is a
  string the read of \<^verbatim>\<open>.dtype\<close> fails, and a column that holds \<open>None\<close> in the second
  example, where the first has a tensor, is refused by the library.
\<close>

theorem collate_batch_labelled_counterexample:
  "collate_batch ints_tensor ints_stack no_default
     [DictExample [(''labels'', PyStr ''positive''),
                   (''input_ids'', PyTensor Int64 ''cpu'' [101, 102])]] =
     Inl (AttributeError ''dtype'') \<and>
   collate_batch ints_tensor ints_stack no_default
     [DictExample [(''labels'', PyTensor Float32 ''cpu'' [1]), (''x'', PyTensor Float32 ''cpu'' [10, 11])],
      DictExample [(''labels'', PyTensor Float32 ''cpu'' [2]), (''x'', PyNone)]] =
     Inl (TypeError ''expected Tensor as element'')"
  by code_simp

subsection \<open>Examples without labels\<close>

text \<open>
  When the first example has no \<open>labels\<close>, or a null one, \<^verbatim>\<open>batch\<close> is still
  \<^verbatim>\<open>None\<close> when the loop over the fields starts, and it stays \<^verbatim>\<open>None\<close>: no
  mapping is ever returned.
\<close>

lemma collate_fields_None:
  "collate_fields ts features items None \<noteq> Inr (Some b)"
  by (induction items) (auto split: sum.splits if_splits)

lemma collate_batch_unlabelled:
  assumes "features = DictExample fd # others"
      and "map_of fd ''labels'' = None \<or> map_of fd ''labels'' = Some PyNone"
  shows "collate_batch tt ts dc features \<noteq> Inr (Some b)"
  using assms collate_fields_None[of ts features fd b]
  by (auto simp: collate_batch_def collate_labels_def)

text \<open>
  C5 says that for a first example without \<open>labels\<close>, or with a null one, the output
  is a mapping with no \<open>labels\<close> key that holds the stacked values of the other fields.
  On the code the first field to stack raises \<^verbatim>\<open>TypeError\<close>, since \<^verbatim>\<open>batch\<close> is
  \<^verbatim>\<open>None\<close>; with no field to stack the method returns \<^verbatim>\<open>None\<close>.
\<close>

theorem collate_batch_unlabelled_fails:
  "collate_batch ints_tensor ints_stack no_default
     [DictExample [(''input_ids'', PyTensor Int64 ''cpu'' [101, 102])]] =
     Inl (TypeError ''NoneType object does not support item assignment'') \<and>
   collate_batch ints_tensor ints_stack no_default
     [DictExample [(''labels'', PyNone), (''input_ids'', PyTensor Int64 ''cpu'' [101, 102])]] =
     Inl (TypeError ''NoneType object does not support item assignment'') \<and>
   collate_batch ints_tensor ints_stack no_default
     [DictExample [(''text'', PyStr ''hello'')]] = Inr None"
  by code_simp

end
